theory Spec2Isabelle
  imports Complex_Main "HOL-Library.Signed_Division" "HOL-Library.Sublist"
begin

section \<open>caffe2/core/common_gpu.h\<close>

text \<open>
  A shallow embedding of the inline code of \<^verbatim>\<open>caffe2/core/common_gpu.h\<close>: the
  compile-time device bound, \<^verbatim>\<open>HasCudaGPU\<close>, the checking macros, the launch-size
  helper \<^verbatim>\<open>CAFFE_GET_BLOCKS\<close> and the class \<^verbatim>\<open>DeviceGuard\<close>.
\<close>

subsection \<open>The C++ type \<^verbatim>\<open>int\<close>\<close>

text \<open>
  \<^verbatim>\<open>int\<close> is a 32-bit two's complement integer. Its values are modelled as the
  integers between \<open>INT_MIN\<close> and \<open>INT_MAX\<close>. Signed overflow is undefined behaviour
  in C++: a checked operation returns \<open>None\<close> where the exact result leaves the
  range, and \<open>wrap_int\<close> gives the value a two's complement machine computes there.
  The operator \<^verbatim>\<open>/\<close> truncates towards zero (\<open>sdiv\<close>).
\<close>

definition INT_MAX :: int where
  "INT_MAX = 2147483647"

definition INT_MIN :: int where
  "INT_MIN = - 2147483648"

definition in_int_range :: "int \<Rightarrow> bool" where
  "in_int_range x = (INT_MIN \<le> x \<and> x \<le> INT_MAX)"

definition int_add :: "int \<Rightarrow> int \<Rightarrow> int option" where
  "int_add a b = (if in_int_range (a + b) then Some (a + b) else None)"

definition int_sub :: "int \<Rightarrow> int \<Rightarrow> int option" where
  "int_sub a b = (if in_int_range (a - b) then Some (a - b) else None)"

definition int_div :: "int \<Rightarrow> int \<Rightarrow> int option" where
  "int_div a b = (if b = 0 \<or> \<not> in_int_range (a sdiv b) then None else Some (a sdiv b))"

definition wrap_int :: "int \<Rightarrow> int" where
  "wrap_int x = (x + 2147483648) mod 4294967296 - 2147483648"

subsection \<open>Constants\<close>


text \<open>\<^verbatim>\<open>constexpr int CAFFE_CUDA_NUM_THREADS = 512;\<close>\<close>

definition CAFFE_CUDA_NUM_THREADS :: int where
  "CAFFE_CUDA_NUM_THREADS = 512"

text \<open>\<^verbatim>\<open>constexpr int CAFFE_MAXIMUM_NUM_BLOCKS = 4096;\<close>\<close>

definition CAFFE_MAXIMUM_NUM_BLOCKS :: int where
  "CAFFE_MAXIMUM_NUM_BLOCKS = 4096"

subsection \<open>\<^verbatim>\<open>CAFFE_GET_BLOCKS\<close>\<close>

text \<open>
  \<^verbatim>\<open>
  inline int CAFFE_GET_BLOCKS(const int N) {
    return std::min((N + CAFFE_CUDA_NUM_THREADS - 1) / CAFFE_CUDA_NUM_THREADS,
                    CAFFE_MAXIMUM_NUM_BLOCKS);
  }
  \<close>
  The additive operators group from the left: the sum \<^verbatim>\<open>N + CAFFE_CUDA_NUM_THREADS\<close>
  is computed first, then 1 is subtracted. \<open>CAFFE_GET_BLOCKS\<close> follows the C++
  abstract machine (\<open>None\<close> is undefined behaviour by signed overflow);
  \<open>CAFFE_GET_BLOCKS_wrap\<close> is the same expression with every operation wrapping
  around, as on two's complement hardware.
\<close>

definition CAFFE_GET_BLOCKS :: "int \<Rightarrow> int option" where
  "CAFFE_GET_BLOCKS N =
     (case int_add N CAFFE_CUDA_NUM_THREADS of
        None \<Rightarrow> None
      | Some s \<Rightarrow>
          (case int_sub s 1 of
             None \<Rightarrow> None
           | Some t \<Rightarrow>
               (case int_div t CAFFE_CUDA_NUM_THREADS of
                  None \<Rightarrow> None
                | Some q \<Rightarrow> Some (min q CAFFE_MAXIMUM_NUM_BLOCKS))))"

definition CAFFE_GET_BLOCKS_wrap :: "int \<Rightarrow> int" where
  "CAFFE_GET_BLOCKS_wrap N =
     min (wrap_int (wrap_int (wrap_int (N + CAFFE_CUDA_NUM_THREADS) - 1) sdiv CAFFE_CUDA_NUM_THREADS))
         CAFFE_MAXIMUM_NUM_BLOCKS"

text \<open>
  The specification's wording of the same function, on unbounded integers: the ceiling
  of \<open>N / ThreadsPerBlock\<close>, clamped to at most \<open>MaxBlocks\<close>.
\<close>

definition ComputeBlockCount_spec :: "int \<Rightarrow> int" where
  "ComputeBlockCount_spec N = min \<lceil>real_of_int N / 512\<rceil> 4096"

subsection \<open>\<^verbatim>\<open>HasCudaGPU\<close>\<close>

text \<open>
  \<^verbatim>\<open>inline bool HasCudaGPU() { return NumCudaDevices() > 0; }\<close>

  \<^verbatim>\<open>NumCudaDevices\<close> is only declared in the header; it is a parameter here, a
  function of the runtime state \<open>'rt\<close>.
\<close>

definition HasCudaGPU :: "('rt \<Rightarrow> int) \<Rightarrow> 'rt \<Rightarrow> bool" where
  "HasCudaGPU NumCudaDevices rt = (NumCudaDevices rt > 0)"

subsection \<open>Status codes and the checking macros\<close>

text \<open>
  The status enumerations \<^verbatim>\<open>cudaError_t\<close>, \<^verbatim>\<open>CUresult\<close>, \<^verbatim>\<open>cublasStatus_t\<close> and
  \<^verbatim>\<open>curandStatus_t\<close> come from the vendor's headers; a status code is an \<open>int\<close>, and
  the success sentinel of each enumeration is 0 there.
\<close>

definition cudaSuccess :: int where
  "cudaSuccess = 0"

definition CUDA_SUCCESS :: int where
  "CUDA_SUCCESS = 0"

definition CUBLAS_STATUS_SUCCESS :: int where
  "CUBLAS_STATUS_SUCCESS = 0"

definition CURAND_STATUS_SUCCESS :: int where
  "CURAND_STATUS_SUCCESS = 0"

text \<open>A fatal failure: the message that was logged before the process terminated.\<close>

datatype failure = Fatal string

text \<open>The decimal digits of \<^verbatim>\<open>__LINE__\<close>, as the stream operator prints them.\<close>

fun show_nat :: "nat \<Rightarrow> string" where
  "show_nat n =
     (if n < 10 then [''0123456789'' ! n]
      else show_nat (n div 10) @ [''0123456789'' ! (n mod 10)])"

declare show_nat.simps [simp del]

text \<open>
  Modelled from the spec: the macros \<^verbatim>\<open>CAFFE_ENFORCE_EQ\<close> and \<^verbatim>\<open>LOG(FATAL)\<close> are
  defined in \<^verbatim>\<open>caffe2/core/logging.h\<close>, which is not among the sources. The
  specification's fatal-on-error contract: the message is logged and the process
  terminates at once; nothing is handed back to the caller. \<open>CAFFE_ENFORCE_EQ x y args\<close>
  fails so when \<open>x\<close> differs from \<open>y\<close>, with the concatenated \<open>args\<close> as message;
  \<open>LOG_FATAL\<close> fails so always.
\<close>

definition CAFFE_ENFORCE_EQ :: "int \<Rightarrow> int \<Rightarrow> string list \<Rightarrow> failure + unit" where
  "CAFFE_ENFORCE_EQ x y args = (if x = y then Inr () else Inl (Fatal (concat args)))"

definition LOG_FATAL :: "string list \<Rightarrow> failure + unit" where
  "LOG_FATAL args = Inl (Fatal (concat args))"

text \<open>
  \<^verbatim>\<open>
  #define CUDA_CHECK(condition)       \
    do {                              \
      cudaError_t error = condition;  \
      CAFFE_ENFORCE_EQ(               \
          error,                      \
          cudaSuccess,                \
          "Error at: ",               \
          __FILE__,                   \
          ":",                        \
          __LINE__,                   \
          ": ",                       \
          cudaGetErrorString(error)); \
    } while (0)
  \<close>
  The vendor's \<^verbatim>\<open>cudaGetErrorString\<close> is a parameter, and so are the place of the
  macro's expansion (\<open>file\<close>, \<open>line\<close>) and the value \<open>error\<close> of the condition.
  \<^verbatim>\<open>CUBLAS_CHECK\<close> and \<^verbatim>\<open>CURAND_CHECK\<close> are the same macro for their own success
  sentinel and translation function. \<^verbatim>\<open>CUDA_DRIVERAPI_CHECK\<close> compares by itself
  and logs through \<^verbatim>\<open>LOG(FATAL)\<close> with the name \<^verbatim>\<open>cuGetErrorName\<close> gives.
\<close>

definition CUDA_CHECK :: "(int \<Rightarrow> string) \<Rightarrow> string \<Rightarrow> nat \<Rightarrow> int \<Rightarrow> failure + unit" where
  "CUDA_CHECK cudaGetErrorString file line error =
     CAFFE_ENFORCE_EQ error cudaSuccess
       [''Error at: '', file, '':'', show_nat line, '': '', cudaGetErrorString error]"

definition CUDA_DRIVERAPI_CHECK :: "(int \<Rightarrow> string) \<Rightarrow> string \<Rightarrow> nat \<Rightarrow> int \<Rightarrow> failure + unit" where
  "CUDA_DRIVERAPI_CHECK cuGetErrorName file line result =
     (if result \<noteq> CUDA_SUCCESS
      then LOG_FATAL [''Error at: '', file, '':'', show_nat line, '': '', cuGetErrorName result]
      else Inr ())"

definition CUBLAS_CHECK :: "(int \<Rightarrow> string) \<Rightarrow> string \<Rightarrow> nat \<Rightarrow> int \<Rightarrow> failure + unit" where
  "CUBLAS_CHECK cublasGetErrorString file line status =
     CAFFE_ENFORCE_EQ status CUBLAS_STATUS_SUCCESS
       [''Error at: '', file, '':'', show_nat line, '': '', cublasGetErrorString status]"

definition CURAND_CHECK :: "(int \<Rightarrow> string) \<Rightarrow> string \<Rightarrow> nat \<Rightarrow> int \<Rightarrow> failure + unit" where
  "CURAND_CHECK curandGetErrorString file line status =
     CAFFE_ENFORCE_EQ status CURAND_STATUS_SUCCESS
       [''Error at: '', file, '':'', show_nat line, '': '', curandGetErrorString status]"

subsection \<open>The vendor runtime\<close>

text \<open>
  The runtime is outside the repository and opaque to it. Its state, as far as this
  header's code observes it: the calling thread's current device; the status the next
  \<^verbatim>\<open>cudaGetDevice\<close> call returns; the status a \<^verbatim>\<open>cudaSetDevice(d)\<close> call returns, for
  each \<open>d\<close>; the answer to \<^verbatim>\<open>cudaGetDeviceCount\<close> (status and count); and the answer
  to \<^verbatim>\<open>cudaDeviceCanAccessPeer\<close> for a pair of devices (status and capability).
  \<open>set_device_calls\<close> is instrumentation: the arguments of all \<^verbatim>\<open>cudaSetDevice\<close>
  calls issued so far, oldest first. A call of \<^verbatim>\<open>cudaSetDevice\<close> that succeeds makes
  its argument the current device; one that fails leaves the current device alone.
\<close>

record runtime =
  current_device :: int
  get_device_status :: int
  set_device_status :: "int \<Rightarrow> int"
  set_device_calls :: "int list"
  device_count_query :: "int \<times> int"
  can_access_peer :: "int \<Rightarrow> int \<Rightarrow> int \<times> bool"

definition cudaGetDevice :: "runtime \<Rightarrow> int \<times> int" where
  "cudaGetDevice rt = (get_device_status rt, current_device rt)"

definition cudaSetDevice :: "int \<Rightarrow> runtime \<Rightarrow> int \<times> runtime" where
  "cudaSetDevice device rt =
     (set_device_status rt device,
      rt\<lparr>current_device :=
            (if set_device_status rt device = cudaSuccess then device else current_device rt),
          set_device_calls := set_device_calls rt @ [device]\<rparr>)"

text \<open>
  Modelled from the spec: \<^verbatim>\<open>GetCurrentGPUID\<close> is declared in the header (``a simple
  wrapper around cudaGetDevice()'') and defined in \<^verbatim>\<open>common_gpu.cc\<close>, which is not among
  the sources. The specification: it wraps the runtime's query for the current device,
  and any failure of the runtime is fatal by the uniform contract. \<open>line\<close> is the line
  of that check in \<^verbatim>\<open>common_gpu.cc\<close>.
\<close>

definition GetCurrentGPUID :: "(int \<Rightarrow> string) \<Rightarrow> nat \<Rightarrow> runtime \<Rightarrow> failure + int" where
  "GetCurrentGPUID cudaGetErrorString line rt =
     (case cudaGetDevice rt of
        (error, gpu_id) \<Rightarrow>
          (case CUDA_CHECK cudaGetErrorString ''caffe2/core/common_gpu.cc'' line error of
             Inl f \<Rightarrow> Inl f
           | Inr _ \<Rightarrow> Inr gpu_id))"

subsection \<open>\<^verbatim>\<open>DeviceGuard\<close>\<close>

text \<open>
  \<^verbatim>\<open>
  class DeviceGuard {
   public:
    explicit DeviceGuard(int newDevice)
        : previous_(GetCurrentGPUID()) {
      if (previous_ != newDevice) {
        CUDA_CHECK(cudaSetDevice(newDevice));
      }
    }

    ~DeviceGuard() {
      CUDA_CHECK(cudaSetDevice(previous_));
    }

   private:
    int previous_;
  };
  \<close>
  The constructor and the destructor pass the runtime's state on, also when they end in
  a fatal failure (the state is then the one the process terminated in). The two checks
  expand at lines 215 and 220 of the header.
\<close>

record DeviceGuard =
  previous :: int

definition common_gpu_h :: string where
  "common_gpu_h = ''caffe2/core/common_gpu.h''"

definition DeviceGuard_ctor ::
  "(int \<Rightarrow> string) \<Rightarrow> nat \<Rightarrow> int \<Rightarrow> runtime \<Rightarrow> (failure + DeviceGuard) \<times> runtime" where
  "DeviceGuard_ctor es site newDevice rt =
     (case GetCurrentGPUID es site rt of
        Inl f \<Rightarrow> (Inl f, rt)
      | Inr p \<Rightarrow>
          if p \<noteq> newDevice then
            (case cudaSetDevice newDevice rt of
               (error, rt') \<Rightarrow>
                 (case CUDA_CHECK es common_gpu_h 215 error of
                    Inl f \<Rightarrow> (Inl f, rt')
                  | Inr _ \<Rightarrow> (Inr \<lparr>previous = p\<rparr>, rt')))
          else (Inr \<lparr>previous = p\<rparr>, rt))"

definition DeviceGuard_dtor ::
  "(int \<Rightarrow> string) \<Rightarrow> DeviceGuard \<Rightarrow> runtime \<Rightarrow> (failure + unit) \<times> runtime" where
  "DeviceGuard_dtor es g rt =
     (case cudaSetDevice (previous g) rt of
        (error, rt') \<Rightarrow> (CUDA_CHECK es common_gpu_h 220 error, rt'))"

text \<open>
  A guarded scope \<^verbatim>\<open>{ DeviceGuard g(t); /* body */ }\<close>. The body is any code: it
  takes the runtime's state to a new one and either ends the process, returns, or
  leaves by an exception. C++ runs the destructor of \<open>g\<close> on both ways out of the
  block, and not at all when the process has terminated.
\<close>

datatype exit = Returned | Unwinding

definition guarded_scope ::
  "(int \<Rightarrow> string) \<Rightarrow> nat \<Rightarrow> int \<Rightarrow> (runtime \<Rightarrow> (failure + exit) \<times> runtime) \<Rightarrow> runtime
     \<Rightarrow> (failure + exit) \<times> runtime" where
  "guarded_scope es site t body rt =
     (case DeviceGuard_ctor es site t rt of
        (Inl f, rt1) \<Rightarrow> (Inl f, rt1)
      | (Inr g, rt1) \<Rightarrow>
          (case body rt1 of
             (Inl f, rt2) \<Rightarrow> (Inl f, rt2)
           | (Inr ex, rt2) \<Rightarrow>
               (case DeviceGuard_dtor es g rt2 of
                  (Inl f, rt3) \<Rightarrow> (Inl f, rt3)
                | (Inr _, rt3) \<Rightarrow> (Inr ex, rt3))))"

text \<open>The empty body: it returns at once and touches nothing.\<close>

definition empty_body :: "runtime \<Rightarrow> (failure + exit) \<times> runtime" where
  "empty_body rt = (Inr Returned, rt)"

subsection \<open>Peer access pattern\<close>

text \<open>
  Modelled from the spec: \<^verbatim>\<open>NumCudaDevices\<close> and \<^verbatim>\<open>GetCudaPeerAccessPattern\<close> are
  declared in the header and defined in \<^verbatim>\<open>common_gpu.cc\<close>, which is not among the
  sources. The specification: the device count is what the runtime reports, and 0 when
  the query fails. The pattern has one row and one column for each live device, in
  ascending order; an entry on the diagonal is true, any other entry \<open>(i, j)\<close> is what the
  runtime answers for the pair, and if any such query errors the function hands the
  failure indicator to its caller. The header's comment says the same: ``This function
  returns false if anything wrong happens during the query''. \<open>Inr None\<close> is the
  return value \<^verbatim>\<open>false\<close>, \<open>Inr (Some m)\<close> is \<^verbatim>\<open>true\<close> with \<open>m\<close> stored in
  \<^verbatim>\<open>*pattern\<close>, and \<open>Inl\<close> would be a fatal failure.
\<close>

definition NumCudaDevices :: "runtime \<Rightarrow> int" where
  "NumCudaDevices rt =
     (case device_count_query rt of (error, n) \<Rightarrow> if error = cudaSuccess then n else 0)"

fun peer_access_row :: "runtime \<Rightarrow> int \<Rightarrow> int list \<Rightarrow> bool list option" where
  "peer_access_row rt i [] = Some []"
| "peer_access_row rt i (j # js) =
     (if i = j then map_option ((#) True) (peer_access_row rt i js)
      else
        (case can_access_peer rt i j of
           (error, b) \<Rightarrow>
             if error \<noteq> cudaSuccess then None
             else map_option ((#) b) (peer_access_row rt i js)))"

fun peer_access_rows :: "runtime \<Rightarrow> int list \<Rightarrow> int list \<Rightarrow> bool list list option" where
  "peer_access_rows rt [] ds = Some []"
| "peer_access_rows rt (i # rest) ds =
     (case peer_access_row rt i ds of
        None \<Rightarrow> None
      | Some r \<Rightarrow> map_option ((#) r) (peer_access_rows rt rest ds))"

definition GetCudaPeerAccessPattern :: "runtime \<Rightarrow> failure + bool list list option" where
  "GetCudaPeerAccessPattern rt =
     (let devices = [0 .. NumCudaDevices rt - 1]
      in Inr (peer_access_rows rt devices devices))"

subsection \<open>Default device\<close>

text \<open>
  Modelled from the spec: \<^verbatim>\<open>SetDefaultGPUID\<close> and \<^verbatim>\<open>GetDefaultGPUID\<close> are declared in
  the header and defined in \<^verbatim>\<open>common_gpu.cc\<close>, which is not among the sources. The
  specification: a process-wide state holds the default device id, 0 at first;
  \<open>SetDefaultDevice\<close> stores the given id and validates nothing, and
  \<open>GetDefaultDevice\<close> returns the stored value. The header's comment says the same of
  the first value: ``Before this function is explicitly called, GPU 0 will be the
  default GPU id''.
\<close>

record ProcessDeviceState =
  defaultDeviceId :: int

definition initial_ProcessDeviceState :: ProcessDeviceState where
  "initial_ProcessDeviceState = \<lparr>defaultDeviceId = 0\<rparr>"

definition SetDefaultGPUID :: "int \<Rightarrow> ProcessDeviceState \<Rightarrow> ProcessDeviceState" where
  "SetDefaultGPUID deviceid s = s\<lparr>defaultDeviceId := deviceid\<rparr>"

definition GetDefaultGPUID :: "ProcessDeviceState \<Rightarrow> int" where
  "GetDefaultGPUID s = defaultDeviceId s"

subsection \<open>Concrete inputs\<close>

text \<open>
  A runtime with three devices, device 0 current, every pair peer-accessible, and
  \<^verbatim>\<open>cudaSetDevice\<close> failing with code 10 outside the three devices; and an error table.
\<close>

definition example_runtime :: runtime where
  "example_runtime =
     \<lparr>current_device = 0,
      get_device_status = 0,
      set_device_status = (\<lambda>d. if 0 \<le> d \<and> d < 3 then 0 else 10),
      set_device_calls = [],
      device_count_query = (0, 3),
      can_access_peer = (\<lambda>i j. (0, True))\<rparr>"

definition example_error_string :: "int \<Rightarrow> string" where
  "example_error_string error = (if error = 0 then ''no error'' else ''invalid device ordinal'')"

text \<open>A body that switches to device 2 and leaves by an exception.\<close>

definition example_body :: "runtime \<Rightarrow> (failure + exit) \<times> runtime" where
  "example_body rt = (Inr Unwinding, snd (cudaSetDevice 2 rt))"



section \<open>Properties\<close>

subsection \<open>Launch size\<close>

lemma ceiling_div_512: "\<lceil>real_of_int N / 512\<rceil> = (N + 511) div 512"
proof -
  have "\<lceil>real_of_int N / real_of_int 512\<rceil> = - (- N div 512)"
    by (rule ceiling_divide_eq_div)
  also have "\<dots> = (N + 511) div 512"
    by linarith
  finally show ?thesis by simp
qed

lemma sdiv_nonneg: "0 \<le> a \<Longrightarrow> 0 < b \<Longrightarrow> a sdiv b = a div (b::int)"
  by (cases "a = 0") (simp_all add: signed_divide_int_def)

lemma CAFFE_GET_BLOCKS_no_overflow:
  assumes "0 \<le> N" and "N \<le> INT_MAX - 512"
  shows "CAFFE_GET_BLOCKS N = Some (ComputeBlockCount_spec N)"
proof -
  from assms have n: "0 \<le> N" "N \<le> 2147483135"
    by (simp_all add: INT_MAX_def)
  then have a: "int_add N CAFFE_CUDA_NUM_THREADS = Some (N + 512)"
    by (simp add: int_add_def in_int_range_def INT_MAX_def INT_MIN_def CAFFE_CUDA_NUM_THREADS_def)
  from n have s: "int_sub (N + 512) 1 = Some (N + 511)"
    by (simp add: int_sub_def in_int_range_def INT_MAX_def INT_MIN_def)
  from n have q: "(N + 511) sdiv 512 = (N + 511) div 512"
    by (simp add: sdiv_nonneg)
  from n have "0 \<le> (N + 511) div 512"
    by linarith
  moreover from n have "(N + 511) div 512 \<le> 2147483647"
    by linarith
  ultimately have d: "int_div (N + 511) CAFFE_CUDA_NUM_THREADS = Some ((N + 511) div 512)"
    using q
    by (simp add: int_div_def in_int_range_def INT_MAX_def INT_MIN_def CAFFE_CUDA_NUM_THREADS_def)
  show ?thesis
    by (simp add: CAFFE_GET_BLOCKS_def a s d ComputeBlockCount_spec_def ceiling_div_512
        CAFFE_MAXIMUM_NUM_BLOCKS_def)
qed

lemma ComputeBlockCount_spec_range:
  assumes "0 \<le> N"
  shows "0 \<le> ComputeBlockCount_spec N \<and> ComputeBlockCount_spec N \<le> 4096"
proof -
  from assms have "0 \<le> (N + 511) div 512" by linarith
  then show ?thesis
    unfolding ComputeBlockCount_spec_def ceiling_div_512 by simp
qed

text \<open>The values the specification lists for the function.\<close>

lemma CAFFE_GET_BLOCKS_listed_values:
  "CAFFE_GET_BLOCKS 0 = Some 0"
  "CAFFE_GET_BLOCKS 512 = Some 1"
  "CAFFE_GET_BLOCKS 513 = Some 2"
  "CAFFE_GET_BLOCKS (512 * 4096) = Some 4096"
  "CAFFE_GET_BLOCKS (512 * 4096 + 1) = Some 4096"
  by (simp_all add: CAFFE_GET_BLOCKS_def int_add_def int_sub_def int_div_def in_int_range_def
      INT_MAX_def INT_MIN_def CAFFE_CUDA_NUM_THREADS_def CAFFE_MAXIMUM_NUM_BLOCKS_def
      signed_divide_int_def)

text \<open>
  C2, at the input where it fails. For \<open>N = INT_MAX\<close>, a non-negative \<^verbatim>\<open>int\<close>, the
  specification's formula gives 4096 blocks, but the sum \<^verbatim>\<open>N + CAFFE_CUDA_NUM_THREADS\<close>
  leaves the range of \<^verbatim>\<open>int\<close>: the behaviour is undefined, and with wrap-around the
  function returns \<open>- 4194303\<close>.
\<close>

theorem CAFFE_GET_BLOCKS_at_INT_MAX:
  "CAFFE_GET_BLOCKS INT_MAX = None \<and> CAFFE_GET_BLOCKS_wrap INT_MAX = - 4194303 \<and>
   ComputeBlockCount_spec INT_MAX = 4096"
  by (simp add: CAFFE_GET_BLOCKS_def CAFFE_GET_BLOCKS_wrap_def int_add_def in_int_range_def
      INT_MAX_def INT_MIN_def CAFFE_CUDA_NUM_THREADS_def CAFFE_MAXIMUM_NUM_BLOCKS_def
      wrap_int_def signed_divide_int_def ComputeBlockCount_spec_def ceiling_div_512)

text \<open>
  C10, as stated, fails at \<open>N = INT_MAX - 511 = 2147483136\<close>: the claim takes the
  intermediate sum to be \<open>N + 511\<close>, but the code adds 512 first, and
  \<open>2147483136 + 512\<close> is \<open>INT_MAX + 1\<close>. (With wrap-around the following subtraction
  wraps back, and the result there is 4096.)
\<close>

theorem CAFFE_GET_BLOCKS_overflow_counterexample:
  "0 \<le> (2147483136::int) \<and> 2147483136 \<le> INT_MAX - 511 \<and>
   int_add 2147483136 CAFFE_CUDA_NUM_THREADS = None \<and>
   CAFFE_GET_BLOCKS 2147483136 = None \<and>
   CAFFE_GET_BLOCKS_wrap 2147483136 = 4096"
  by (simp add: CAFFE_GET_BLOCKS_def CAFFE_GET_BLOCKS_wrap_def int_add_def in_int_range_def
      INT_MAX_def INT_MIN_def CAFFE_CUDA_NUM_THREADS_def CAFFE_MAXIMUM_NUM_BLOCKS_def
      wrap_int_def signed_divide_int_def)

text \<open>
  C10, amended: \<^verbatim>\<open>CAFFE_GET_BLOCKS\<close> computes \<open>(N + 512) - 1\<close> in signed \<^verbatim>\<open>int\<close>
  arithmetic. For every \<open>N\<close> with \<open>0 \<le> N \<le> INT_MAX - 512\<close> neither the addition nor
  the subtraction overflows and the result lies between 0 and 4096; for every \<^verbatim>\<open>int\<close>
  \<open>N > INT_MAX - 512\<close> the addition overflows the range of \<^verbatim>\<open>int\<close>.
\<close>

theorem CAFFE_GET_BLOCKS_overflow_boundary:
  "(0 \<le> N \<and> N \<le> INT_MAX - 512 \<longrightarrow>
      int_add N CAFFE_CUDA_NUM_THREADS = Some (N + 512) \<and>
      int_sub (N + 512) 1 = Some (N + 511) \<and>
      (\<exists>r. CAFFE_GET_BLOCKS N = Some r \<and> 0 \<le> r \<and> r \<le> 4096))
   \<and> (INT_MAX - 512 < N \<and> N \<le> INT_MAX \<longrightarrow>
      int_add N CAFFE_CUDA_NUM_THREADS = None \<and> CAFFE_GET_BLOCKS N = None)"
proof (intro conjI impI)
  assume a: "0 \<le> N \<and> N \<le> INT_MAX - 512"
  then show "int_add N CAFFE_CUDA_NUM_THREADS = Some (N + 512)"
    by (simp add: int_add_def in_int_range_def INT_MAX_def INT_MIN_def CAFFE_CUDA_NUM_THREADS_def)
  from a show "int_sub (N + 512) 1 = Some (N + 511)"
    by (simp add: int_sub_def in_int_range_def INT_MAX_def INT_MIN_def)
  from a have "CAFFE_GET_BLOCKS N = Some (ComputeBlockCount_spec N)"
    by (simp add: CAFFE_GET_BLOCKS_no_overflow)
  with a ComputeBlockCount_spec_range [of N]
  show "\<exists>r. CAFFE_GET_BLOCKS N = Some r \<and> 0 \<le> r \<and> r \<le> 4096"
    by simp
next
  assume b: "INT_MAX - 512 < N \<and> N \<le> INT_MAX"
  then show o: "int_add N CAFFE_CUDA_NUM_THREADS = None"
    by (simp add: int_add_def in_int_range_def INT_MAX_def INT_MIN_def CAFFE_CUDA_NUM_THREADS_def)
  then show "CAFFE_GET_BLOCKS N = None"
    by (simp add: CAFFE_GET_BLOCKS_def)
qed

theorem CAFFE_GET_BLOCKS_overflow_boundary_witness:
  "(0 \<le> (1000::int) \<and> 1000 \<le> INT_MAX - 512) \<and>
   (\<exists>r. CAFFE_GET_BLOCKS 1000 = Some r \<and> 0 \<le> r \<and> r \<le> 4096) \<and>
   (INT_MAX - 512 < INT_MAX \<and> INT_MAX \<le> INT_MAX) \<and>
   CAFFE_GET_BLOCKS INT_MAX = None"
proof -
  have h1: "0 \<le> (1000::int) \<and> 1000 \<le> INT_MAX - 512"
    by (simp add: INT_MAX_def)
  have h2: "INT_MAX - 512 < INT_MAX \<and> INT_MAX \<le> INT_MAX"
    by simp
  from CAFFE_GET_BLOCKS_overflow_boundary [of 1000] h1
  have c1: "\<exists>r. CAFFE_GET_BLOCKS 1000 = Some r \<and> 0 \<le> r \<and> r \<le> 4096"
    by blast
  from CAFFE_GET_BLOCKS_overflow_boundary [of INT_MAX] h2
  have c2: "CAFFE_GET_BLOCKS INT_MAX = None"
    by blast
  from h1 h2 c1 c2 show ?thesis by blast
qed

subsection \<open>Device bound, device presence, default device\<close>



text \<open>
  C6: \<^verbatim>\<open>HasCudaGPU\<close> is true exactly when the device count is greater than zero, for
  every function that reports the count and every state of the runtime.
\<close>

theorem HasCudaGPU_iff_count_positive:
  "HasCudaGPU count rt = (0 < count rt)"
  by (simp add: HasCudaGPU_def)

text \<open>
  C7: after \<open>SetDefaultGPUID k\<close>, for every integer \<open>k\<close> and with no validation,
  \<open>GetDefaultGPUID\<close> returns \<open>k\<close>; before the first set it returns 0.
\<close>

theorem default_device_round_trip:
  "GetDefaultGPUID (SetDefaultGPUID k s) = k \<and>
   GetDefaultGPUID initial_ProcessDeviceState = 0"
  by (simp add: GetDefaultGPUID_def SetDefaultGPUID_def initial_ProcessDeviceState_def)

subsection \<open>The fatal-on-error checks\<close>

lemma CAFFE_ENFORCE_EQ_fails:
  assumes "x \<noteq> y"
  shows "CAFFE_ENFORCE_EQ x y args = Inl (Fatal (concat args))"
  using assms by (simp add: CAFFE_ENFORCE_EQ_def)

lemma message_contains:
  "sublist f (concat [p, f, c, l, d, e]) \<and> sublist l (concat [p, f, c, l, d, e]) \<and>
   sublist e (concat [p, f, c, l, d, e])"
proof (intro conjI)
  show "sublist f (concat [p, f, c, l, d, e])"
    using sublist_appendI [of f p "c @ l @ d @ e"] by simp
  show "sublist l (concat [p, f, c, l, d, e])"
    using sublist_appendI [of l "p @ f @ c" "d @ e"] by simp
  show "sublist e (concat [p, f, c, l, d, e])"
    using sublist_append_leftI [of e "p @ f @ c @ l @ d"] by simp
qed

text \<open>The message of the check at line 215 of the header, for status code 10.\<close>

lemma CUDA_CHECK_message_example:
  "CUDA_CHECK example_error_string common_gpu_h 215 10 =
     Inl (Fatal ''Error at: caffe2/core/common_gpu.h:215: invalid device ordinal'')"
  by (simp add: CUDA_CHECK_def CAFFE_ENFORCE_EQ_def cudaSuccess_def show_nat.simps
      common_gpu_h_def example_error_string_def)

text \<open>
  C3: for every status code that is not the success sentinel, each of the four checks
  (\<^verbatim>\<open>CUDA_CHECK\<close>, \<^verbatim>\<open>CUDA_DRIVERAPI_CHECK\<close>, \<^verbatim>\<open>CUBLAS_CHECK\<close>,
  \<^verbatim>\<open>CURAND_CHECK\<close>) ends in the fatal failure, with a logged message that contains the
  source file, the line and the translated error string; none returns a value to its
  caller.
\<close>

theorem fatal_on_error:
  "(error \<noteq> cudaSuccess \<longrightarrow>
      (\<exists>msg. CUDA_CHECK es file line error = Inl (Fatal msg) \<and>
         sublist file msg \<and> sublist (show_nat line) msg \<and> sublist (es error) msg))
   \<and> (error \<noteq> CUDA_SUCCESS \<longrightarrow>
      (\<exists>msg. CUDA_DRIVERAPI_CHECK es file line error = Inl (Fatal msg) \<and>
         sublist file msg \<and> sublist (show_nat line) msg \<and> sublist (es error) msg))
   \<and> (error \<noteq> CUBLAS_STATUS_SUCCESS \<longrightarrow>
      (\<exists>msg. CUBLAS_CHECK es file line error = Inl (Fatal msg) \<and>
         sublist file msg \<and> sublist (show_nat line) msg \<and> sublist (es error) msg))
   \<and> (error \<noteq> CURAND_STATUS_SUCCESS \<longrightarrow>
      (\<exists>msg. CURAND_CHECK es file line error = Inl (Fatal msg) \<and>
         sublist file msg \<and> sublist (show_nat line) msg \<and> sublist (es error) msg))"
proof (intro conjI impI)
  assume "error \<noteq> cudaSuccess"
  then have "CUDA_CHECK es file line error =
      Inl (Fatal (concat [''Error at: '', file, '':'', show_nat line, '': '', es error]))"
    unfolding CUDA_CHECK_def by (rule CAFFE_ENFORCE_EQ_fails)
  with message_contains
  show "\<exists>msg. CUDA_CHECK es file line error = Inl (Fatal msg) \<and>
         sublist file msg \<and> sublist (show_nat line) msg \<and> sublist (es error) msg"
    by blast
next
  assume "error \<noteq> CUDA_SUCCESS"
  then have "CUDA_DRIVERAPI_CHECK es file line error =
      Inl (Fatal (concat [''Error at: '', file, '':'', show_nat line, '': '', es error]))"
    by (simp add: CUDA_DRIVERAPI_CHECK_def LOG_FATAL_def)
  with message_contains
  show "\<exists>msg. CUDA_DRIVERAPI_CHECK es file line error = Inl (Fatal msg) \<and>
         sublist file msg \<and> sublist (show_nat line) msg \<and> sublist (es error) msg"
    by blast
next
  assume "error \<noteq> CUBLAS_STATUS_SUCCESS"
  then have "CUBLAS_CHECK es file line error =
      Inl (Fatal (concat [''Error at: '', file, '':'', show_nat line, '': '', es error]))"
    unfolding CUBLAS_CHECK_def by (rule CAFFE_ENFORCE_EQ_fails)
  with message_contains
  show "\<exists>msg. CUBLAS_CHECK es file line error = Inl (Fatal msg) \<and>
         sublist file msg \<and> sublist (show_nat line) msg \<and> sublist (es error) msg"
    by blast
next
  assume "error \<noteq> CURAND_STATUS_SUCCESS"
  then have "CURAND_CHECK es file line error =
      Inl (Fatal (concat [''Error at: '', file, '':'', show_nat line, '': '', es error]))"
    unfolding CURAND_CHECK_def by (rule CAFFE_ENFORCE_EQ_fails)
  with message_contains
  show "\<exists>msg. CURAND_CHECK es file line error = Inl (Fatal msg) \<and>
         sublist file msg \<and> sublist (show_nat line) msg \<and> sublist (es error) msg"
    by blast
qed

theorem fatal_on_error_witness:
  "((10::int) \<noteq> cudaSuccess \<and> (10::int) \<noteq> CUDA_SUCCESS \<and>
    (10::int) \<noteq> CUBLAS_STATUS_SUCCESS \<and> (10::int) \<noteq> CURAND_STATUS_SUCCESS) \<and>
   (\<exists>msg. CUDA_CHECK example_error_string common_gpu_h 215 10 = Inl (Fatal msg) \<and>
      sublist common_gpu_h msg \<and> sublist (show_nat 215) msg \<and>
      sublist (example_error_string 10) msg) \<and>
   (\<exists>msg. CUDA_DRIVERAPI_CHECK example_error_string common_gpu_h 215 10 = Inl (Fatal msg) \<and>
      sublist common_gpu_h msg \<and> sublist (show_nat 215) msg \<and>
      sublist (example_error_string 10) msg) \<and>
   (\<exists>msg. CUBLAS_CHECK example_error_string common_gpu_h 215 10 = Inl (Fatal msg) \<and>
      sublist common_gpu_h msg \<and> sublist (show_nat 215) msg \<and>
      sublist (example_error_string 10) msg) \<and>
   (\<exists>msg. CURAND_CHECK example_error_string common_gpu_h 215 10 = Inl (Fatal msg) \<and>
      sublist common_gpu_h msg \<and> sublist (show_nat 215) msg \<and>
      sublist (example_error_string 10) msg)"
proof -
  have h: "(10::int) \<noteq> cudaSuccess \<and> (10::int) \<noteq> CUDA_SUCCESS \<and>
      (10::int) \<noteq> CUBLAS_STATUS_SUCCESS \<and> (10::int) \<noteq> CURAND_STATUS_SUCCESS"
    by (simp add: cudaSuccess_def CUDA_SUCCESS_def CUBLAS_STATUS_SUCCESS_def
        CURAND_STATUS_SUCCESS_def)
  from fatal_on_error [of 10 example_error_string common_gpu_h 215] h
  show ?thesis
    by blast
qed

subsection \<open>\<^verbatim>\<open>DeviceGuard\<close>\<close>

lemma CUDA_CHECK_Inr: "CUDA_CHECK es file line error = Inr u \<longleftrightarrow> error = cudaSuccess"
  by (simp add: CUDA_CHECK_def CAFFE_ENFORCE_EQ_def)

lemma GetCurrentGPUID_Inr:
  "GetCurrentGPUID es site rt = Inr c \<longleftrightarrow> get_device_status rt = cudaSuccess \<and> c = current_device rt"
  by (auto simp: GetCurrentGPUID_def cudaGetDevice_def CUDA_CHECK_def CAFFE_ENFORCE_EQ_def)

lemma DeviceGuard_ctor_Inr:
  assumes "DeviceGuard_ctor es site t rt = (Inr g, rt1)"
  shows "previous g = current_device rt"
  using assms
  by (auto simp: DeviceGuard_ctor_def GetCurrentGPUID_Inr cudaSetDevice_def
      split: sum.splits if_splits prod.splits)

lemma DeviceGuard_dtor_calls:
  "set_device_calls (snd (DeviceGuard_dtor es g rt)) = set_device_calls rt @ [previous g]"
  by (simp add: DeviceGuard_dtor_def cudaSetDevice_def)

lemma DeviceGuard_dtor_Inr:
  assumes "DeviceGuard_dtor es g rt = (Inr u, rt')"
  shows "current_device rt' = previous g"
  using assms
  by (auto simp: DeviceGuard_dtor_def cudaSetDevice_def CUDA_CHECK_Inr split: prod.splits)

lemma guarded_scope_Inr:
  assumes "guarded_scope es site t body rt = (Inr ex, rt')"
  shows "\<exists>g rt1 rt2. DeviceGuard_ctor es site t rt = (Inr g, rt1) \<and> body rt1 = (Inr ex, rt2) \<and>
           DeviceGuard_dtor es g rt2 = (Inr (), rt')"
  using assms
  by (auto simp: guarded_scope_def split: prod.splits sum.splits)

text \<open>
  C1: for every starting current device \<open>c\<close>, every target \<open>t\<close> and every body, when
  the scope \<^verbatim>\<open>{ DeviceGuard g(t); /* body */ }\<close> is left, by return or by an exception
  unwinding through it, the current device is \<open>c\<close> again, whatever the body did to the
  runtime; \<open>GetCurrentGPUID\<close> then returns \<open>c\<close> (if the runtime answers the query at
  all).
\<close>

theorem DeviceGuard_round_trip:
  assumes "GetCurrentGPUID es site rt = Inr c"
    and "guarded_scope es site t body rt = (Inr ex, rt')"
  shows "current_device rt' = c \<and>
         (get_device_status rt' = cudaSuccess \<longrightarrow> GetCurrentGPUID es site' rt' = Inr c)"
proof -
  from assms(2) obtain g rt1 rt2 where
    c: "DeviceGuard_ctor es site t rt = (Inr g, rt1)" and
    d: "DeviceGuard_dtor es g rt2 = (Inr (), rt')"
    using guarded_scope_Inr by blast
  from c have "previous g = current_device rt" by (rule DeviceGuard_ctor_Inr)
  moreover from d have "current_device rt' = previous g" by (rule DeviceGuard_dtor_Inr)
  moreover from assms(1) have "c = current_device rt" by (simp add: GetCurrentGPUID_Inr)
  ultimately have "current_device rt' = c" by simp
  then show ?thesis by (simp add: GetCurrentGPUID_Inr)
qed

lemma DeviceGuard_ctor_succeeds:
  assumes "get_device_status rt = cudaSuccess"
    and "t = current_device rt \<or> set_device_status rt t = cudaSuccess"
  shows "\<exists>rt1. DeviceGuard_ctor es site t rt = (Inr \<lparr>previous = current_device rt\<rparr>, rt1)"
proof -
  from assms(1) have g: "GetCurrentGPUID es site rt = Inr (current_device rt)"
    by (simp add: GetCurrentGPUID_Inr)
  show ?thesis
  proof (cases "t = current_device rt")
    case True
    with g show ?thesis by (simp add: DeviceGuard_ctor_def)
  next
    case False
    with assms(2) have "set_device_status rt t = cudaSuccess" by simp
    with g False show ?thesis
      by (simp add: DeviceGuard_ctor_def cudaSetDevice_def CUDA_CHECK_def CAFFE_ENFORCE_EQ_def)
  qed
qed

lemma DeviceGuard_dtor_succeeds:
  assumes "set_device_status rt (previous g) = cudaSuccess"
  shows "\<exists>rt'. DeviceGuard_dtor es g rt = (Inr (), rt')"
  using assms
  by (simp add: DeviceGuard_dtor_def cudaSetDevice_def CUDA_CHECK_def CAFFE_ENFORCE_EQ_def)

text \<open>
  The scope is left, rather than ending the process, whenever the runtime answers the
  first query, accepts the target, and accepts the recorded device when the body is done.
\<close>

lemma guarded_scope_exits:
  assumes "get_device_status rt = cudaSuccess"
    and "t = current_device rt \<or> set_device_status rt t = cudaSuccess"
    and "body (snd (DeviceGuard_ctor es site t rt)) = (Inr ex, rt2)"
    and "set_device_status rt2 (current_device rt) = cudaSuccess"
  shows "\<exists>rt'. guarded_scope es site t body rt = (Inr ex, rt')"
proof -
  from assms(1,2) obtain rt1 where
    c: "DeviceGuard_ctor es site t rt = (Inr \<lparr>previous = current_device rt\<rparr>, rt1)"
    using DeviceGuard_ctor_succeeds by blast
  with assms(3) have b: "body rt1 = (Inr ex, rt2)" by simp
  from assms(4) obtain rt' where
    d: "DeviceGuard_dtor es \<lparr>previous = current_device rt\<rparr> rt2 = (Inr (), rt')"
    using DeviceGuard_dtor_succeeds [of rt2 "\<lparr>previous = current_device rt\<rparr>"] by auto
  from c b d have "guarded_scope es site t body rt = (Inr ex, rt')"
    by (simp add: guarded_scope_def)
  then show ?thesis ..
qed

lemma example_scope:
  "guarded_scope example_error_string 1 1 example_body example_runtime =
     (Inr Unwinding, example_runtime\<lparr>set_device_calls := [1, 2, 0]\<rparr>)"
  by (simp add: guarded_scope_def DeviceGuard_ctor_def DeviceGuard_dtor_def GetCurrentGPUID_def
      cudaGetDevice_def cudaSetDevice_def CUDA_CHECK_def CAFFE_ENFORCE_EQ_def cudaSuccess_def
      example_runtime_def example_body_def)

theorem DeviceGuard_round_trip_witness:
  "GetCurrentGPUID example_error_string 1 example_runtime = Inr 0 \<and>
   guarded_scope example_error_string 1 1 example_body example_runtime =
     (Inr Unwinding, example_runtime\<lparr>set_device_calls := [1, 2, 0]\<rparr>) \<and>
   current_device (example_runtime\<lparr>set_device_calls := [1, 2, 0]\<rparr>) = 0"
proof -
  have h1: "GetCurrentGPUID example_error_string 1 example_runtime = Inr 0"
    by (simp add: GetCurrentGPUID_Inr example_runtime_def cudaSuccess_def)
  note h2 = example_scope
  from DeviceGuard_round_trip [OF h1 h2] h1 h2 show ?thesis by simp
qed

text \<open>
  C4, as stated, fails: with device 0 current, the lifetime of \<^verbatim>\<open>DeviceGuard(0)\<close> with
  nothing in between issues one \<^verbatim>\<open>cudaSetDevice\<close> call, the destructor's.
\<close>

theorem DeviceGuard_same_device_counterexample:
  "GetCurrentGPUID example_error_string 1 example_runtime = Inr 0 \<and>
   set_device_calls example_runtime = [] \<and>
   set_device_calls (snd (guarded_scope example_error_string 1 0 empty_body example_runtime)) = [0]"
  by (simp add: guarded_scope_def DeviceGuard_ctor_def DeviceGuard_dtor_def GetCurrentGPUID_def
      cudaGetDevice_def cudaSetDevice_def CUDA_CHECK_def CAFFE_ENFORCE_EQ_def cudaSuccess_def
      example_runtime_def empty_body_def)

lemma DeviceGuard_ctor_same:
  assumes "GetCurrentGPUID es site rt = Inr c"
  shows "DeviceGuard_ctor es site c rt = (Inr \<lparr>previous = c\<rparr>, rt)"
  using assms by (simp add: DeviceGuard_ctor_def)

text \<open>
  C4, amended: for every device \<open>c\<close>, constructing \<^verbatim>\<open>DeviceGuard(c)\<close> while
  \<open>GetCurrentGPUID\<close> returns \<open>c\<close> issues no \<^verbatim>\<open>cudaSetDevice\<close> call and leaves the
  runtime as it was; over the guard's lifetime exactly one such call is issued, the
  destructor's \<^verbatim>\<open>cudaSetDevice(c)\<close>.
\<close>

theorem DeviceGuard_same_device_calls:
  "GetCurrentGPUID es site rt = Inr c \<longrightarrow>
     DeviceGuard_ctor es site c rt = (Inr \<lparr>previous = c\<rparr>, rt) \<and>
     set_device_calls (snd (DeviceGuard_ctor es site c rt)) = set_device_calls rt \<and>
     set_device_calls (snd (guarded_scope es site c empty_body rt)) = set_device_calls rt @ [c]"
proof
  assume a: "GetCurrentGPUID es site rt = Inr c"
  then have k: "DeviceGuard_ctor es site c rt = (Inr \<lparr>previous = c\<rparr>, rt)"
    by (rule DeviceGuard_ctor_same)
  have "snd (guarded_scope es site c empty_body rt) = snd (DeviceGuard_dtor es \<lparr>previous = c\<rparr> rt)"
    by (simp add: guarded_scope_def k empty_body_def split: prod.splits sum.splits)
  then have "set_device_calls (snd (guarded_scope es site c empty_body rt)) = set_device_calls rt @ [c]"
    by (simp add: DeviceGuard_dtor_calls)
  with k show "DeviceGuard_ctor es site c rt = (Inr \<lparr>previous = c\<rparr>, rt) \<and>
     set_device_calls (snd (DeviceGuard_ctor es site c rt)) = set_device_calls rt \<and>
     set_device_calls (snd (guarded_scope es site c empty_body rt)) = set_device_calls rt @ [c]"
    by simp
qed

theorem DeviceGuard_same_device_calls_witness:
  "GetCurrentGPUID example_error_string 1 example_runtime = Inr 0 \<and>
   set_device_calls (snd (DeviceGuard_ctor example_error_string 1 0 example_runtime)) =
     set_device_calls example_runtime \<and>
   set_device_calls (snd (guarded_scope example_error_string 1 0 empty_body example_runtime)) =
     set_device_calls example_runtime @ [0]"
proof -
  have h: "GetCurrentGPUID example_error_string 1 example_runtime = Inr 0"
    by (simp add: GetCurrentGPUID_Inr example_runtime_def cudaSuccess_def)
  with DeviceGuard_same_device_calls [of example_error_string 1 example_runtime 0] show ?thesis
    by blast
qed

text \<open>
  C9: the destructor always issues one \<^verbatim>\<open>cudaSetDevice\<close> call, with the recorded
  previous device as argument, and that device is current afterwards when the call
  succeeds. This holds for the guard of any constructor call, also one that found the
  target current and switched nothing: its recorded device is the device that was
  current at construction.
\<close>

theorem DeviceGuard_dtor_always_switches:
  "set_device_calls (snd (DeviceGuard_dtor es g rt)) = set_device_calls rt @ [previous g] \<and>
   (set_device_status rt (previous g) = cudaSuccess \<longrightarrow>
      current_device (snd (DeviceGuard_dtor es g rt)) = previous g) \<and>
   (DeviceGuard_ctor es site t rt0 = (Inr g, rt1) \<longrightarrow>
      set_device_calls (snd (DeviceGuard_dtor es g rt)) =
        set_device_calls rt @ [current_device rt0])"
proof (intro conjI impI)
  show "set_device_calls (snd (DeviceGuard_dtor es g rt)) = set_device_calls rt @ [previous g]"
    by (rule DeviceGuard_dtor_calls)
next
  assume "set_device_status rt (previous g) = cudaSuccess"
  then show "current_device (snd (DeviceGuard_dtor es g rt)) = previous g"
    by (simp add: DeviceGuard_dtor_def cudaSetDevice_def)
next
  assume "DeviceGuard_ctor es site t rt0 = (Inr g, rt1)"
  then have "previous g = current_device rt0"
    by (rule DeviceGuard_ctor_Inr)
  then show "set_device_calls (snd (DeviceGuard_dtor es g rt)) =
      set_device_calls rt @ [current_device rt0]"
    by (simp add: DeviceGuard_dtor_calls)
qed

theorem DeviceGuard_dtor_always_switches_witness:
  "DeviceGuard_ctor example_error_string 1 0 example_runtime =
     (Inr \<lparr>previous = 0\<rparr>, example_runtime) \<and>
   set_device_status example_runtime (previous \<lparr>previous = 0\<rparr>) = cudaSuccess \<and>
   current_device (snd (DeviceGuard_dtor example_error_string \<lparr>previous = 0\<rparr> example_runtime)) =
     previous \<lparr>previous = 0\<rparr> \<and>
   set_device_calls (snd (DeviceGuard_dtor example_error_string \<lparr>previous = 0\<rparr> example_runtime)) =
     set_device_calls example_runtime @ [current_device example_runtime]"
proof -
  have h1: "DeviceGuard_ctor example_error_string 1 0 example_runtime =
      (Inr \<lparr>previous = 0\<rparr>, example_runtime)"
    by (simp add: DeviceGuard_ctor_same GetCurrentGPUID_Inr example_runtime_def cudaSuccess_def)
  have h2: "set_device_status example_runtime (previous \<lparr>previous = 0\<rparr>) = cudaSuccess"
    by (simp add: example_runtime_def cudaSuccess_def)
  from h1 h2
    DeviceGuard_dtor_always_switches
      [of example_error_string "\<lparr>previous = 0\<rparr>" example_runtime 1 0 example_runtime example_runtime]
  show ?thesis by blast
qed

subsection \<open>Peer access pattern\<close>



lemma peer_access_row_Some:
  assumes "\<forall>j\<in>set js. i \<noteq> j \<longrightarrow> fst (can_access_peer rt i j) = cudaSuccess"
  shows "\<exists>r. peer_access_row rt i js = Some r \<and> length r = length js \<and>
           (\<forall>k<length js. js ! k = i \<longrightarrow> r ! k)"
  using assms
proof (induction js)
  case Nil
  then show ?case by simp
next
  case (Cons a js)
  then obtain r where r: "peer_access_row rt i js = Some r" "length r = length js"
    "\<forall>k<length js. js ! k = i \<longrightarrow> r ! k"
    by auto
  show ?case
  proof (cases "i = a")
    case True
    with r show ?thesis by (auto simp: nth_Cons split: nat.splits)
  next
    case False
    with Cons.prems have "fst (can_access_peer rt i a) = cudaSuccess" by simp
    with False r show ?thesis by (auto simp: nth_Cons split: nat.splits prod.splits)
  qed
qed

lemma peer_access_rows_Some:
  assumes "\<forall>i\<in>set rows. \<forall>j\<in>set ds. i \<noteq> j \<longrightarrow> fst (can_access_peer rt i j) = cudaSuccess"
  shows "\<exists>m. peer_access_rows rt rows ds = Some m \<and> length m = length rows \<and>
           (\<forall>k<length rows. length (m ! k) = length ds \<and>
              (\<forall>l<length ds. ds ! l = rows ! k \<longrightarrow> m ! k ! l))"
  using assms
proof (induction rows)
  case Nil
  then show ?case by simp
next
  case (Cons a rows)
  then obtain m where m: "peer_access_rows rt rows ds = Some m" "length m = length rows"
    "\<forall>k<length rows. length (m ! k) = length ds \<and> (\<forall>l<length ds. ds ! l = rows ! k \<longrightarrow> m ! k ! l)"
    by auto
  from Cons.prems have "\<forall>j\<in>set ds. a \<noteq> j \<longrightarrow> fst (can_access_peer rt a j) = cudaSuccess"
    by simp
  then obtain r where r: "peer_access_row rt a ds = Some r" "length r = length ds"
    "\<forall>l<length ds. ds ! l = a \<longrightarrow> r ! l"
    using peer_access_row_Some by blast
  from m r show ?case by (auto simp: nth_Cons split: nat.splits)
qed




lemma upto_0_2: "[0 .. (2::int)] = [0, 1, 2]"
  by (simp add: upto.simps)

text \<open>Where every query succeeds, the function returns the square pattern with a true diagonal.\<close>

lemma GetCudaPeerAccessPattern_example: "GetCudaPeerAccessPattern example_runtime = Inr (Some [[True, True, True], [True, True, True], [True, True, True]])"
  by (simp add: GetCudaPeerAccessPattern_def NumCudaDevices_def example_runtime_def cudaSuccess_def upto_0_2)

lemma GetCudaPeerAccessPattern_succeeds:
  assumes "\<forall>i j. 0 \<le> i \<and> i < NumCudaDevices rt \<and> 0 \<le> j \<and> j < NumCudaDevices rt \<and> i \<noteq> j
             \<longrightarrow> fst (can_access_peer rt i j) = cudaSuccess"
  shows "\<exists>m. GetCudaPeerAccessPattern rt = Inr (Some m) \<and> int (length m) = max 0 (NumCudaDevices rt) \<and>
           (\<forall>k<length m. length (m ! k) = length m \<and> m ! k ! k)"
proof -
  let ?ds = "[0 .. NumCudaDevices rt - 1]"
  from assms have "\<forall>i\<in>set ?ds. \<forall>j\<in>set ?ds. i \<noteq> j \<longrightarrow> fst (can_access_peer rt i j) = cudaSuccess"
    by simp
  then obtain m where m: "peer_access_rows rt ?ds ?ds = Some m" "length m = length ?ds"
    "\<forall>k<length ?ds. length (m ! k) = length ?ds \<and> (\<forall>l<length ?ds. ?ds ! l = ?ds ! k \<longrightarrow> m ! k ! l)"
    using peer_access_rows_Some by blast
  from m(1) have "GetCudaPeerAccessPattern rt = Inr (Some m)"
    by (simp add: GetCudaPeerAccessPattern_def Let_def)
  moreover from m(2) have "int (length m) = max 0 (NumCudaDevices rt)"
    by simp
  moreover from m(2,3) have "\<forall>k<length m. length (m ! k) = length m \<and> m ! k ! k"
    by simp
  ultimately show ?thesis by blast
qed

end
